theory Spec2Isabelle
  imports Main
begin

chapter \<open>The water status dashboard\<close>

text \<open>
  A shallow embedding of \<^verbatim>\<open>src/src/App.jsx\<close>: the data loader \<^verbatim>\<open>useWaterData\<close>, the views
  \<^verbatim>\<open>MapComponent\<close> and \<^verbatim>\<open>ChartComponent\<close>, and the root view \<^verbatim>\<open>App\<close>. State cells are
  record fields, a render is a function from the state to the view it returns, a thrown
  error is the left summand of a sum, and what the network and the user do are
  arguments.
\<close>

section \<open>Strings of the dashboard: \<^verbatim>\<open>trim\<close> and \<^verbatim>\<open>toLowerCase\<close>\<close>

text \<open>
  A string is a list of code units; \<^typ>\<open>char\<close> holds the code units U+0000 to U+00FF
  (ASCII and the Latin-1 supplement), which is the alphabet of the district names this
  development covers. On that alphabet both runtime functions of \<^verbatim>\<open>src/src/App.jsx\<close>
  line 178 are context free and stay inside the alphabet:

  \<^item> \<^verbatim>\<open>String.prototype.trim\<close> removes the code units of the ECMAScript productions
    WhiteSpace and LineTerminator from both ends: TAB, LF, VT, FF, CR, SP and NBSP
    (U+0009 to U+000D, U+0020, U+00A0);
  \<^item> \<^verbatim>\<open>String.prototype.toLowerCase\<close> maps A..Z (U+0041 to U+005A) and the capital
    letters U+00C0 to U+00DE, the multiplication sign U+00D7 apart, to the code unit
    32 above, and leaves every other code unit as it is.
\<close>

definition isWhiteSpace :: "char \<Rightarrow> bool" where
  "isWhiteSpace c =
     (let n = (of_char c :: nat)
      in (9 \<le> n \<and> n \<le> 13) \<or> n = 32 \<or> n = 160)"

definition trimStart :: "string \<Rightarrow> string" where
  "trimStart s = dropWhile isWhiteSpace s"

definition trimEnd :: "string \<Rightarrow> string" where
  "trimEnd s = rev (dropWhile isWhiteSpace (rev s))"

definition trim :: "string \<Rightarrow> string" where
  "trim s = trimEnd (trimStart s)"

definition isUpper :: "char \<Rightarrow> bool" where
  "isUpper c =
     (let n = (of_char c :: nat)
      in (65 \<le> n \<and> n \<le> 90) \<or> (192 \<le> n \<and> n \<le> 222 \<and> n \<noteq> 215))"

definition toLowerChar :: "char \<Rightarrow> char" where
  "toLowerChar c = (if isUpper c then char_of (of_char c + (32 :: nat)) else c)"

definition toLowerCase :: "string \<Rightarrow> string" where
  "toLowerCase s = map toLowerChar s"

text \<open>
  The normalized key of line 178, \<^verbatim>\<open>selectedDistrict.trim().toLowerCase()\<close>:
  trim first, lowercase second.
\<close>

definition normalize_key :: "string \<Rightarrow> string" where
  "normalize_key s = toLowerCase (trim s)"

section \<open>Data model\<close>

text \<open>
  A parsed JSON object is the list of its own properties in the order in which
  \<^verbatim>\<open>Object.keys\<close> and \<^verbatim>\<open>Object.entries\<close> enumerate them; an object has every key once.
  A \<open>WaterSeries\<close> maps year labels to values, a \<open>TwsDataset\<close> maps district keys to
  series. The code never inspects a value, so the type of values is a parameter.
\<close>

type_synonym 'n WaterSeries = "(string \<times> 'n) list"

type_synonym 'n TwsDataset = "(string \<times> 'n WaterSeries) list"

text \<open>
  A feature of the boundary collection. Its \<^verbatim>\<open>properties\<close> member is an object or
  \<^verbatim>\<open>null\<close> (\<open>None\<close>); the \<^verbatim>\<open>DISTRICT\<close> property is a string, or absent or
  \<^verbatim>\<open>null\<close> (\<open>None\<close>). The geometry is passed to the map library untouched.
\<close>

record feature_properties =
  DISTRICT :: "string option"

record 'g feature =
  properties :: "feature_properties option"
  geometry :: 'g

type_synonym 'g BoundaryCollection = "'g feature list"

text \<open>The object of \<^verbatim>\<open>useState({ tws: {}, geojson: null })\<close>, line 20.\<close>

record ('n, 'g) WaterData =
  tws :: "'n TwsDataset"
  geojson :: "'g BoundaryCollection option"

text \<open>The three state cells of \<^verbatim>\<open>useWaterData\<close>, lines 20 to 22.\<close>

record ('n, 'g) hook_state =
  data :: "('n, 'g) WaterData"
  loading :: bool
  error :: "string option"

text \<open>The state of \<^verbatim>\<open>App\<close>: the hook's cells and \<^verbatim>\<open>selectedDistrict\<close>, line 170.\<close>

record ('n, 'g) app_state =
  hook :: "('n, 'g) hook_state"
  selectedDistrict :: "string option"

subsection \<open>Truthiness of a string or \<^verbatim>\<open>null\<close>\<close>

text \<open>
  \<^verbatim>\<open>null\<close>, \<^verbatim>\<open>undefined\<close> and the empty string are falsy, every other string is truthy.
  \<open>js_or x d\<close> is \<^verbatim>\<open>x || d\<close>.
\<close>

definition truthy :: "string option \<Rightarrow> bool" where
  "truthy x = (case x of None \<Rightarrow> False | Some s \<Rightarrow> s \<noteq> [])"

definition js_or :: "string option \<Rightarrow> string \<Rightarrow> string" where
  "js_or x d = (case x of None \<Rightarrow> d | Some s \<Rightarrow> if s = [] then d else s)"

section \<open>The data loader \<^verbatim>\<open>useWaterData\<close>\<close>

text \<open>
  What the network gives one \<^verbatim>\<open>fetch\<close>: the promise rejects with an error of some
  message, or resolves to a response with a status and a body. \<^verbatim>\<open>res.ok\<close> is true for the
  statuses 200 to 299. \<^verbatim>\<open>res.json()\<close> rejects with an error of some message (\<open>Inl\<close>) or
  resolves to the parsed body (\<open>Inr\<close>). A body that parses has the shape of its endpoint:
  a mapping from district keys to series, or a collection of features.
\<close>

datatype 'b response = Response (status: nat) (json: "string + 'b")

datatype 'b fetch_result = Rejected string | Resolved "'b response"

definition ok :: "'b response \<Rightarrow> bool" where
  "ok res = (200 \<le> status res \<and> status res \<le> 299)"

text \<open>
  \<^verbatim>\<open>Promise.all\<close> of the two fetches, lines 27 to 30: it resolves to both responses
  when both resolve and rejects with the error of the promise that rejects first. Which
  of two failing fetches rejects first is the network's choice.
\<close>

datatype settle_order = TwsFirst | BoundariesFirst

fun Promise_all ::
  "settle_order \<Rightarrow> 'a fetch_result \<Rightarrow> 'b fetch_result \<Rightarrow> string + ('a response \<times> 'b response)"
where
  "Promise_all _ (Resolved a) (Resolved b) = Inr (a, b)"
| "Promise_all _ (Rejected m) (Resolved _) = Inl m"
| "Promise_all _ (Resolved _) (Rejected m) = Inl m"
| "Promise_all TwsFirst (Rejected m1) (Rejected _) = Inl m1"
| "Promise_all BoundariesFirst (Rejected _) (Rejected m2) = Inl m2"

text \<open>
  The \<^verbatim>\<open>try\<close> block of \<^verbatim>\<open>fetchData\<close>, lines 27 to 53: \<open>Inl\<close> is the message of the
  error thrown, \<open>Inr\<close> the object handed to \<^verbatim>\<open>setData\<close>. The boundaries' body is parsed
  first, the time series' body second.
\<close>

definition fetchData_try ::
  "settle_order \<Rightarrow> 'n TwsDataset fetch_result \<Rightarrow> 'g BoundaryCollection fetch_result
     \<Rightarrow> string + ('n, 'g) WaterData"
where
  "fetchData_try ord twsFetch geojsonFetch =
     (case Promise_all ord twsFetch geojsonFetch of
        Inl m \<Rightarrow> Inl m
      | Inr (twsRes, geojsonRes) \<Rightarrow>
          if \<not> ok twsRes \<or> \<not> ok geojsonRes then Inl ''Network response was not ok''
          else
            (case json geojsonRes of
               Inl m \<Rightarrow> Inl m
             | Inr geojsonData \<Rightarrow>
                 (case json twsRes of
                    Inl m \<Rightarrow> Inl m
                  | Inr twsLookupObject \<Rightarrow>
                      Inr \<lparr>tws = twsLookupObject, geojson = Some geojsonData\<rparr>)))"

text \<open>
  \<^verbatim>\<open>fetchData\<close> with its \<^verbatim>\<open>catch\<close> (\<^verbatim>\<open>setError(err.message)\<close>) and its \<^verbatim>\<open>finally\<close>
  (\<^verbatim>\<open>setLoading(false)\<close>), lines 56 to 60.
\<close>

definition fetchData ::
  "('n, 'g) hook_state \<Rightarrow> settle_order \<Rightarrow> 'n TwsDataset fetch_result
     \<Rightarrow> 'g BoundaryCollection fetch_result \<Rightarrow> ('n, 'g) hook_state"
where
  "fetchData hs ord twsFetch geojsonFetch =
     (case fetchData_try ord twsFetch geojsonFetch of
        Inl m \<Rightarrow> hs\<lparr>error := Some m, loading := False\<rparr>
      | Inr d \<Rightarrow> hs\<lparr>data := d, loading := False\<rparr>)"


definition useWaterData_initial :: "('n, 'g) hook_state" where
  "useWaterData_initial = \<lparr>data = \<lparr>tws = [], geojson = None\<rparr>, loading = True, error = None\<rparr>"

section \<open>The map view \<^verbatim>\<open>MapComponent\<close>\<close>

datatype js_error = TypeError

record path_style =
  weight :: nat
  color :: string

text \<open>
  What \<^verbatim>\<open>onEachFeature\<close> attaches to a layer: the tooltip's content and the three
  listeners. A click listener is a transition of the state the callback acts on.
\<close>

record 's layer =
  tooltip :: string
  click :: "'s \<Rightarrow> 's"
  mouseover :: path_style
  mouseout :: path_style

text \<open>Line 71: \<^verbatim>\<open>feature.properties.DISTRICT || "Unknown"\<close>, for a properties object.\<close>

definition districtName :: "feature_properties \<Rightarrow> string" where
  "districtName p = js_or (DISTRICT p) ''Unknown''"

text \<open>
  Lines 70 to 83. Reading \<^verbatim>\<open>DISTRICT\<close> of a \<^verbatim>\<open>null\<close> properties member throws a
  TypeError.
\<close>

definition onEachFeature :: "(string \<Rightarrow> 's \<Rightarrow> 's) \<Rightarrow> 'g feature \<Rightarrow> js_error + 's layer" where
  "onEachFeature onDistrictClick feat =
     (case properties feat of
        None \<Rightarrow> Inl TypeError
      | Some p \<Rightarrow>
          Inr \<lparr>tooltip = districtName p,
               click = onDistrictClick (districtName p),
               mouseover = \<lparr>weight = 3, color = ''#3b82f6''\<rparr>,
               mouseout = \<lparr>weight = 1, color = ''#60a5fa''\<rparr>\<rparr>)"

fun each_feature :: "('a \<Rightarrow> js_error + 'b) \<Rightarrow> 'a list \<Rightarrow> js_error + 'b list" where
  "each_feature f [] = Inr []"
| "each_feature f (x # xs) =
     (case f x of
        Inl e \<Rightarrow> Inl e
      | Inr y \<Rightarrow> (case each_feature f xs of Inl e \<Rightarrow> Inl e | Inr ys \<Rightarrow> Inr (y # ys)))"

text \<open>
  Lines 96 to 108: the polygon layers over the base map, none while \<^verbatim>\<open>geojson\<close> is
  \<^verbatim>\<open>null\<close>; the GeoJSON layer calls \<^verbatim>\<open>onEachFeature\<close> on each feature in turn.
\<close>

definition MapComponent ::
  "'g BoundaryCollection option \<Rightarrow> (string \<Rightarrow> 's \<Rightarrow> 's) \<Rightarrow> js_error + 's layer list"
where
  "MapComponent geojson' onDistrictClick =
     (case geojson' of
        None \<Rightarrow> Inr []
      | Some feats \<Rightarrow> each_feature (onEachFeature onDistrictClick) feats)"

section \<open>The chart view \<^verbatim>\<open>ChartComponent\<close>\<close>

text \<open>
  The values \<^verbatim>\<open>selectedDistrictData\<close> can hold (line 180): \<^verbatim>\<open>null\<close>, \<^verbatim>\<open>undefined\<close>
  (no such property), a series (an own property of the dataset) or a member that the
  dataset inherits from \<^verbatim>\<open>Object.prototype\<close>. The inherited members are functions and
  the prototype itself: truthy, and without enumerable own properties.
\<close>

datatype 'n js_value = Null | Undefined | SeriesObject "'n WaterSeries" | PrototypeMember

definition Object_prototype_names :: "string list" where
  "Object_prototype_names =
     [''constructor'', ''__defineGetter__'', ''__defineSetter__'', ''hasOwnProperty'',
      ''__lookupGetter__'', ''__lookupSetter__'', ''isPrototypeOf'',
      ''propertyIsEnumerable'', ''toString'', ''valueOf'', ''__proto__'',
      ''toLocaleString'']"

text \<open>The property read \<^verbatim>\<open>tws[districtKey]\<close>: own properties first, then the prototype.\<close>

definition get_property :: "'n TwsDataset \<Rightarrow> string \<Rightarrow> 'n js_value" where
  "get_property obj k =
     (case map_of obj k of
        Some v \<Rightarrow> SeriesObject v
      | None \<Rightarrow> if k \<in> set Object_prototype_names then PrototypeMember else Undefined)"

definition is_falsy :: "'n js_value \<Rightarrow> bool" where
  "is_falsy v = (case v of Null \<Rightarrow> True | Undefined \<Rightarrow> True | _ \<Rightarrow> False)"

text \<open>
  \<^verbatim>\<open>Object.entries\<close> and \<^verbatim>\<open>Object.keys\<close>. The code calls them on truthy values only
  (the test of line 116 short-circuits), so the first two cases are never evaluated.
\<close>

definition Object_entries :: "'n js_value \<Rightarrow> (string \<times> 'n) list" where
  "Object_entries v = (case v of SeriesObject s \<Rightarrow> s | _ \<Rightarrow> [])"

definition Object_keys :: "'n js_value \<Rightarrow> string list" where
  "Object_keys v = map fst (Object_entries v)"

record 'n chart_point =
  year :: string
  TWS_BCM :: 'n

datatype 'n chart = Message string | LineChart "'n chart_point list"

definition ChartComponent :: "'n js_value \<Rightarrow> string option \<Rightarrow> 'n chart" where
  "ChartComponent districtData districtName' =
     (if is_falsy districtData \<or> length (Object_keys districtData) = 0
      then Message
             (if truthy districtName'
              then ''No TWS data is available for '' @ the districtName' @ ''.''
              else ''Click a district on the map to view its water status data.'')
      else LineChart
             (map (\<lambda>(year', value). \<lparr>year = year', TWS_BCM = value\<rparr>)
                (Object_entries districtData)))"

section \<open>The root view \<^verbatim>\<open>App\<close>\<close>

text \<open>Lines 172 to 174.\<close>

definition handleDistrictClick :: "string \<Rightarrow> ('n, 'g) app_state \<Rightarrow> ('n, 'g) app_state" where
  "handleDistrictClick name st = st\<lparr>selectedDistrict := Some name\<rparr>"

text \<open>Lines 177 to 179: \<^verbatim>\<open>null\<close> for a falsy selection, else its normalized key.\<close>

definition districtKey :: "string option \<Rightarrow> string option" where
  "districtKey sel = (if truthy sel then Some (toLowerCase (trim (the sel))) else None)"

text \<open>Line 180: \<^verbatim>\<open>null\<close> for a falsy key, else the property read.\<close>

definition selectedDistrictData :: "'n TwsDataset \<Rightarrow> string option \<Rightarrow> 'n js_value" where
  "selectedDistrictData tws' key =
     (if truthy key then get_property tws' (the key) else Null)"

datatype ('n, 's) view =
    LoadingView
  | ErrorView string
  | DashboardView (map_pane: "js_error + 's layer list") (card_title: string)
      (chart_pane: "'n chart")

text \<open>
  Lines 198 to 244. The logging effect of lines 183 to 196 writes to the console only
  and is left out.
\<close>

definition App :: "('n, 'g) app_state \<Rightarrow> ('n, ('n, 'g) app_state) view" where
  "App st =
     (let h = hook st;
          sel = selectedDistrict st;
          selectedData = selectedDistrictData (tws (data h)) (districtKey sel)
      in if loading h then LoadingView
         else if truthy (error h) then ErrorView (''Error: '' @ the (error h))
         else DashboardView
                (MapComponent (geojson (data h)) handleDistrictClick)
                (js_or sel ''No District Selected'')
                (ChartComponent selectedData sel))"

definition renders_map :: "('n, 's) view \<Rightarrow> bool" where
  "renders_map v = (case v of DashboardView _ _ _ \<Rightarrow> True | _ \<Rightarrow> False)"

definition renders_chart :: "('n, 's) view \<Rightarrow> bool" where
  "renders_chart v = (case v of DashboardView _ _ _ \<Rightarrow> True | _ \<Rightarrow> False)"

definition App_initial :: "('n, 'g) app_state" where
  "App_initial = \<lparr>hook = useWaterData_initial, selectedDistrict = None\<rparr>"

section \<open>Properties of the strings\<close>

lemma isWhiteSpace_toLowerChar: "isWhiteSpace (toLowerChar c) = isWhiteSpace c"
  unfolding isWhiteSpace_def toLowerChar_def isUpper_def Let_def
  by auto

lemma toLowerChar_idem: "toLowerChar (toLowerChar c) = toLowerChar c"
  unfolding toLowerChar_def isUpper_def Let_def
  by auto

lemma toLowerCase_idem: "toLowerCase (toLowerCase s) = toLowerCase s"
  by (simp add: toLowerCase_def toLowerChar_idem)

lemma dropWhile_toLowerCase:
  "dropWhile isWhiteSpace (toLowerCase s) = toLowerCase (dropWhile isWhiteSpace s)"
  by (induction s) (simp_all add: toLowerCase_def isWhiteSpace_toLowerChar)

lemma trim_toLowerCase: "trim (toLowerCase s) = toLowerCase (trim s)"
proof -
  have r: "rev (toLowerCase t) = toLowerCase (rev t)" for t
    by (simp add: toLowerCase_def rev_map)
  show ?thesis
    by (simp add: trim_def trimStart_def trimEnd_def dropWhile_toLowerCase r)
qed

lemma dropWhile_snoc_keeps_last:
  "\<not> P a \<Longrightarrow> \<exists>us. dropWhile P (xs @ [a]) = us @ [a]"
  by (induction xs) auto

lemma trimEnd_keeps_head:
  assumes "\<not> isWhiteSpace a"
  shows "\<exists>zs. trimEnd (a # ys) = a # zs"
proof -
  obtain us where "dropWhile isWhiteSpace (rev ys @ [a]) = us @ [a]"
    using dropWhile_snoc_keeps_last [of isWhiteSpace a "rev ys"] assms by blast
  then show ?thesis by (simp add: trimEnd_def)
qed

lemma trimStart_trimEnd_trimStart:
  "trimStart (trimEnd (trimStart s)) = trimEnd (trimStart s)"
proof (cases "trimStart s")
  case Nil
  have "trimEnd [] = []" "trimStart [] = []"
    by (simp_all add: trimEnd_def trimStart_def)
  with Nil show ?thesis by simp
next
  case (Cons a ys)
  then have "\<not> isWhiteSpace a"
    unfolding trimStart_def by (metis hd_dropWhile list.sel(1) list.distinct(1))
  then obtain zs where "trimEnd (a # ys) = a # zs"
    using trimEnd_keeps_head by blast
  with Cons \<open>\<not> isWhiteSpace a\<close> show ?thesis
    by (simp add: trimStart_def)
qed

lemma trimEnd_idem: "trimEnd (trimEnd s) = trimEnd s"
  by (simp add: trimEnd_def)

lemma trim_idem: "trim (trim s) = trim s"
  by (simp add: trim_def trimStart_trimEnd_trimStart trimEnd_idem)

lemma normalize_key_Nil: "normalize_key [] = []"
  by (simp add: normalize_key_def toLowerCase_def trim_def trimStart_def trimEnd_def)

text \<open>
  The variants of a name: whitespace around it and another casing of its letters leave
  the normalized key as it is.
\<close>

lemma trim_padding:
  assumes l: "\<forall>c \<in> set ws1. isWhiteSpace c" and r: "\<forall>c \<in> set ws2. isWhiteSpace c"
  shows "trim (ws1 @ s @ ws2) = trim s"
proof -
  have a: "dropWhile isWhiteSpace (ws1 @ s @ ws2) = dropWhile isWhiteSpace (s @ ws2)"
    using l by (simp add: dropWhile_append2)
  have e: "dropWhile isWhiteSpace (rev ws2 @ t) = dropWhile isWhiteSpace t" for t
    using r by (simp add: dropWhile_append)
  show ?thesis
  proof (cases "\<forall>c \<in> set s. isWhiteSpace c")
    case True
    with r have p: "dropWhile isWhiteSpace (s @ ws2) = []" "dropWhile isWhiteSpace s = []"
      by (simp_all add: dropWhile_eq_Nil_conv ball_Un)
    show ?thesis
      unfolding trim_def trimStart_def trimEnd_def a p by simp
  next
    case False
    then have q: "dropWhile isWhiteSpace (s @ ws2) = dropWhile isWhiteSpace s @ ws2"
      by (auto simp: dropWhile_append1)
    show ?thesis
      unfolding trim_def trimStart_def trimEnd_def a q by (simp add: e)
  qed
qed

lemma normalize_key_padding:
  assumes "\<forall>c \<in> set ws1. isWhiteSpace c" "\<forall>c \<in> set ws2. isWhiteSpace c"
  shows "normalize_key (ws1 @ s @ ws2) = normalize_key s"
  by (simp add: normalize_key_def trim_padding [OF assms])

lemma normalize_key_casing:
  assumes "toLowerCase v = toLowerCase name"
  shows "normalize_key v = normalize_key name"
proof -
  have "normalize_key v = trim (toLowerCase v)"
    by (simp add: normalize_key_def trim_toLowerCase)
  also have "\<dots> = trim (toLowerCase name)"
    by (simp add: assms)
  finally show ?thesis
    by (simp add: normalize_key_def trim_toLowerCase)
qed

section \<open>Properties of the loader\<close>

lemma fetchData_try_success:
  assumes "ok twsRes" "ok geojsonRes" "json twsRes = Inr t" "json geojsonRes = Inr g"
  shows "fetchData_try ord (Resolved twsRes) (Resolved geojsonRes)
           = Inr \<lparr>tws = t, geojson = Some g\<rparr>"
  using assms by (simp add: fetchData_try_def)

lemma fetchData_success:
  assumes "ok twsRes" "ok geojsonRes" "json twsRes = Inr t" "json geojsonRes = Inr g"
  shows "fetchData hs ord (Resolved twsRes) (Resolved geojsonRes) =
           hs\<lparr>data := \<lparr>tws = t, geojson = Some g\<rparr>, loading := False\<rparr>"
  using assms by (simp add: fetchData_def fetchData_try_success)




section \<open>Properties of the views\<close>

lemma truthy_Some [simp]: "truthy (Some s) = (s \<noteq> [])"
  by (simp add: truthy_def)

lemma truthy_None [simp]: "truthy None = False"
  by (simp add: truthy_def)

lemma districtName_nonempty: "districtName p \<noteq> []"
  by (simp add: districtName_def js_or_def split: option.splits)

lemma districtName_of_string: "v \<noteq> [] \<Longrightarrow> districtName \<lparr>DISTRICT = Some v\<rparr> = v"
  by (simp add: districtName_def js_or_def)

lemma districtKey_of_string:
  "districtKey (Some s) = (if s = [] then None else Some (normalize_key s))"
  by (simp add: districtKey_def normalize_key_def)

lemma handleDistrictClick_sel [simp]:
  "selectedDistrict (handleDistrictClick n st) = Some n"
  "hook (handleDistrictClick n st) = hook st"
  by (simp_all add: handleDistrictClick_def)

lemma districtKey_is_normalized:
  assumes "districtKey sel = Some k"
  shows "\<exists>name. sel = Some name \<and> name \<noteq> [] \<and> k = normalize_key name \<and> normalize_key k = k"
proof (cases sel)
  case None
  with assms show ?thesis by (simp add: districtKey_def)
next
  case (Some name)
  with assms show ?thesis
    by (auto simp: districtKey_of_string normalize_key_def trim_toLowerCase trim_idem
          toLowerCase_idem split: if_splits)
qed

lemma selectedDistrictData_SeriesObject:
  assumes "selectedDistrictData t key = SeriesObject series"
  shows "\<exists>k. key = Some k \<and> k \<noteq> [] \<and> map_of t k = Some series"
  using assms
  by (cases key)
     (auto simp: selectedDistrictData_def get_property_def split: if_splits option.splits)

lemma selectedDistrictData_miss:
  assumes "k \<notin> set (map fst t)"
  shows "\<forall>s. selectedDistrictData t (Some k) \<noteq> SeriesObject s"
proof -
  from assms have "map_of t k = None"
    by (simp add: map_of_eq_None_iff)
  then show ?thesis
    by (simp add: selectedDistrictData_def get_property_def)
qed

lemma ChartComponent_no_series:
  assumes "\<forall>s. d \<noteq> SeriesObject s"
  shows "ChartComponent d (Some name) =
           Message (if name = [] then ''Click a district on the map to view its water status data.''
                    else ''No TWS data is available for '' @ name @ ''.'')"
  using assms
  by (cases d) (simp_all add: ChartComponent_def is_falsy_def Object_keys_def Object_entries_def)


lemma App_dashboard_view:
  assumes "loading (hook st) = False" "\<not> truthy (error (hook st))"
  shows "App st =
           DashboardView
             (MapComponent (geojson (data (hook st))) handleDistrictClick)
             (js_or (selectedDistrict st) ''No District Selected'')
             (ChartComponent
                (selectedDistrictData (tws (data (hook st))) (districtKey (selectedDistrict st)))
                (selectedDistrict st))"
  using assms by (simp add: App_def Let_def)

lemma length_filter_key:
  "distinct ks \<Longrightarrow> k \<in> set ks \<Longrightarrow> length (filter (\<lambda>x. x = k) ks) = 1"
  by (induction ks) (auto simp: filter_empty_conv)

text \<open>
  A feature whose \<^verbatim>\<open>properties\<close> member is \<^verbatim>\<open>null\<close> gets no listeners: line 71 throws.
\<close>

lemma onEachFeature_null_properties:
  "properties feat = None \<Longrightarrow> onEachFeature cb feat = Inl TypeError"
  by (simp add: onEachFeature_def)

section \<open>The claims\<close>



text \<open>
  C1, as amended. Let the dataset hold a series under the key \<open>normalize name\<close>, and let
  that key be non-empty. Then clicking a feature whose \<^verbatim>\<open>DISTRICT\<close> is any variant \<open>v\<close> of
  \<open>name\<close> (any string with the same normalized key: other casing, whitespace around it)
  makes \<^verbatim>\<open>selectedDistrictData\<close> exactly that series.
\<close>

theorem lookup_hit_yields_series:
  assumes variant: "normalize_key v = normalize_key name"
    and nonempty: "normalize_key name \<noteq> []"
    and stored: "map_of (tws (data (hook st))) (normalize_key name) = Some series"
    and click: "st' = handleDistrictClick (districtName \<lparr>DISTRICT = Some v\<rparr>) st"
  shows "selectedDistrictData (tws (data (hook st'))) (districtKey (selectedDistrict st'))
           = SeriesObject series"
proof -
  from variant nonempty have v: "v \<noteq> []"
    using normalize_key_Nil by auto
  have "districtKey (selectedDistrict st') = Some (normalize_key name)"
    by (simp add: click districtName_of_string [OF v] districtKey_of_string v variant)
  then show ?thesis
    using nonempty stored by (simp add: click selectedDistrictData_def get_property_def)
qed

theorem lookup_hit_yields_series_witness:
  "normalize_key ''  BADGAM '' = normalize_key ''Badgam'' \<and>
   normalize_key ''Badgam'' = ''badgam'' \<and>
   selectedDistrictData [(''badgam'', [(''2010'', 12 :: int), (''2011'', 15)])]
     (districtKey (Some ''  BADGAM '')) = SeriesObject [(''2010'', 12), (''2011'', 15)]"
proof -
  let ?t = "[(''badgam'', [(''2010'', 12 :: int), (''2011'', 15)])]"
  let ?st = "\<lparr>hook = \<lparr>data = \<lparr>tws = ?t, geojson = (None :: unit BoundaryCollection option)\<rparr>,
                       loading = False, error = None\<rparr>, selectedDistrict = None\<rparr>"
  have n1: "normalize_key ''  BADGAM '' = ''badgam''" by code_simp
  have n2: "normalize_key ''Badgam'' = ''badgam''" by code_simp
  have d: "districtName \<lparr>DISTRICT = Some ''  BADGAM ''\<rparr> = ''  BADGAM ''"
    by (simp add: districtName_def js_or_def)
  have "selectedDistrictData (tws (data (hook (handleDistrictClick ''  BADGAM '' ?st))))
          (districtKey (selectedDistrict (handleDistrictClick ''  BADGAM '' ?st)))
        = SeriesObject [(''2010'', 12), (''2011'', 15)]"
    using lookup_hit_yields_series
      [of "''  BADGAM ''" "''Badgam''" ?st "[(''2010'', 12), (''2011'', 15)]"
          "handleDistrictClick ''  BADGAM '' ?st"]
    by (simp add: n1 n2 d)
  then show ?thesis by (simp add: n1 n2)
qed

text \<open>
  C1 as stated fails where the normalized key is the empty string: line 180 tests the
  key for truthiness and yields \<^verbatim>\<open>null\<close> without reading the dataset. The dataset below
  holds a series under the empty key, the feature's name is one space.
\<close>

theorem lookup_empty_key_counterexample:
  "normalize_key '' '' \<in> set (map fst [([], [(''2010'', 12 :: int)])]) \<and>
   map_of [([], [(''2010'', 12 :: int)])] (normalize_key '' '') = Some [(''2010'', 12)] \<and>
   selectedDistrictData [([], [(''2010'', 12 :: int)])]
     (districtKey (Some (districtName \<lparr>DISTRICT = Some '' ''\<rparr>))) = Null"
proof -
  have n: "normalize_key '' '' = []" by code_simp
  have d: "districtName \<lparr>DISTRICT = Some '' ''\<rparr> = '' ''"
    by (simp add: districtName_def js_or_def)
  show ?thesis
    by (simp add: n d districtKey_of_string selectedDistrictData_def)
qed

text \<open>
  C2, as amended. The normalized-key function is applied at the lookup end only. The
  loader publishes the time-series dataset, keys included, exactly as received; the
  lookup key of a selection is the normalized key of its display name (none for an empty
  selection); so every key that is looked up is a fixed point of normalizing, and a
  series that a selection finds is stored under such a key.
\<close>

theorem keys_published_as_received:
  assumes "ok twsRes" "ok geojsonRes" "json twsRes = Inr t" "json geojsonRes = Inr g"
    and hs': "hs' = fetchData hs ord (Resolved twsRes) (Resolved geojsonRes)"
  shows "tws (data hs') = t \<and>
         (\<forall>name. districtKey (Some name) = (if name = [] then None else Some (normalize_key name))) \<and>
         (\<forall>sel k. districtKey sel = Some k \<longrightarrow> normalize_key k = k) \<and>
         (\<forall>sel series.
            selectedDistrictData (tws (data hs')) (districtKey sel) = SeriesObject series \<longrightarrow>
            (\<exists>k. normalize_key k = k \<and> map_of t k = Some series))"
proof -
  have a: "tws (data hs') = t"
    unfolding hs' fetchData_success [OF assms(1-4)] by simp
  have b: "\<forall>sel k. districtKey sel = Some k \<longrightarrow> normalize_key k = k"
    using districtKey_is_normalized by blast
  have c: "\<exists>k. normalize_key k = k \<and> map_of t k = Some series"
    if "selectedDistrictData t (districtKey sel) = SeriesObject series" for sel series
  proof -
    from selectedDistrictData_SeriesObject [OF that]
    obtain k where "districtKey sel = Some k" "map_of t k = Some series" by blast
    with b show ?thesis by blast
  qed
  from a b c show ?thesis
    by (simp add: districtKey_of_string)
qed

theorem keys_published_as_received_witness:
  "ok (Response 200 (Inr [(''Badgam'', [(''2010'', 12 :: int)])])) \<and>
   tws (data (fetchData (useWaterData_initial :: (int, unit) hook_state) TwsFirst
                (Resolved (Response 200 (Inr [(''Badgam'', [(''2010'', 12)])])))
                (Resolved (Response 200 (Inr [])))))
     = [(''Badgam'', [(''2010'', 12)])]"
proof -
  let ?t = "Response 200 (Inr [(''Badgam'', [(''2010'', 12 :: int)])])"
  let ?g = "Response 200 (Inr ([] :: unit BoundaryCollection))"
  have o: "ok ?t" "ok ?g"
    by (simp_all add: ok_def)
  from keys_published_as_received
         [OF o, of "[(''Badgam'', [(''2010'', 12)])]" "[]" _ useWaterData_initial TwsFirst] o
  show ?thesis by simp
qed

text \<open>
  C2 as stated fails on its first half: a key that arrives unnormalized is published
  unnormalized.
\<close>

theorem keys_not_normalized_counterexample:
  "map fst (tws (data (fetchData (useWaterData_initial :: (int, unit) hook_state) TwsFirst
       (Resolved (Response 200 (Inr [(''Badgam'', [(''2010'', 12)])])))
       (Resolved (Response 200 (Inr [])))))) = [''Badgam''] \<and>
   normalize_key ''Badgam'' \<noteq> ''Badgam''"
proof -
  have n: "normalize_key ''Badgam'' = ''badgam''" by code_simp
  show ?thesis
    by (simp add: n fetchData_def fetchData_try_def ok_def)
qed




text \<open>
  C4. For every pair of responses with 2xx statuses and bodies that parse, the loader
  ends ready (not loading, no error) with the time-series mapping and the boundary
  collection exactly as received, and the dashboard is rendered.
\<close>

theorem load_success_publishes_verbatim:
  assumes "ok twsRes" "ok geojsonRes" "json twsRes = Inr t" "json geojsonRes = Inr g"
    and hs': "hs' = fetchData useWaterData_initial ord (Resolved twsRes) (Resolved geojsonRes)"
  shows "hs' = \<lparr>data = \<lparr>tws = t, geojson = Some g\<rparr>, loading = False, error = None\<rparr> \<and>
         renders_map (App \<lparr>hook = hs', selectedDistrict = sel\<rparr>) \<and>
         renders_chart (App \<lparr>hook = hs', selectedDistrict = sel\<rparr>)"
proof -
  have a: "hs' = \<lparr>data = \<lparr>tws = t, geojson = Some g\<rparr>, loading = False, error = None\<rparr>"
    unfolding hs' fetchData_success [OF assms(1-4)] by (simp add: useWaterData_initial_def)
  have "loading (hook \<lparr>hook = hs', selectedDistrict = sel\<rparr>) = False"
       "\<not> truthy (error (hook \<lparr>hook = hs', selectedDistrict = sel\<rparr>))"
    by (simp_all add: a)
  from App_dashboard_view [OF this] a show ?thesis
    by (simp add: renders_map_def renders_chart_def)
qed

theorem load_success_publishes_verbatim_witness:
  "ok (Response 200 (Inr [(''badgam'', [(''2010'', 12 :: int), (''2011'', 15)])])) \<and>
   ok (Response 204 (Inr [\<lparr>properties = Some \<lparr>DISTRICT = Some ''Badgam''\<rparr>, geometry = ()\<rparr>])) \<and>
   fetchData useWaterData_initial BoundariesFirst
     (Resolved (Response 200 (Inr [(''badgam'', [(''2010'', 12 :: int), (''2011'', 15)])])))
     (Resolved (Response 204
        (Inr [\<lparr>properties = Some \<lparr>DISTRICT = Some ''Badgam''\<rparr>, geometry = ()\<rparr>])))
   = \<lparr>data = \<lparr>tws = [(''badgam'', [(''2010'', 12), (''2011'', 15)])],
               geojson = Some [\<lparr>properties = Some \<lparr>DISTRICT = Some ''Badgam''\<rparr>, geometry = ()\<rparr>]\<rparr>,
       loading = False, error = None\<rparr>"
proof -
  let ?t = "Response 200 (Inr [(''badgam'', [(''2010'', 12 :: int), (''2011'', 15)])])"
  let ?g = "Response 204
              (Inr [\<lparr>properties = Some \<lparr>DISTRICT = Some ''Badgam''\<rparr>, geometry = ()\<rparr>])"
  have o: "ok ?t" "ok ?g"
    by (simp_all add: ok_def)
  from load_success_publishes_verbatim [OF o _ _ refl, of _ _ BoundariesFirst None] o
  show ?thesis by simp
qed

text \<open>
  C5. In the ready state, for every feature clicked whose name has a normalized key
  that is not a key of the dataset (so also when the dataset is empty), the dashboard is
  rendered with the chart pane holding the message
  \<^verbatim>\<open>No TWS data is available for <name>.\<close> for that name: no error view and no line
  chart.
\<close>

theorem lookup_miss_shows_placeholder:
  assumes ready: "loading (hook st) = False" "\<not> truthy (error (hook st))"
    and miss: "normalize_key (districtName p) \<notin> set (map fst (tws (data (hook st))))"
  shows "App (handleDistrictClick (districtName p) st) =
           DashboardView
             (MapComponent (geojson (data (hook st))) handleDistrictClick)
             (districtName p)
             (Message (''No TWS data is available for '' @ districtName p @ ''.''))"
proof -
  let ?name = "districtName p"
  let ?st = "handleDistrictClick ?name st"
  have key: "districtKey (Some ?name) = Some (normalize_key ?name)"
    by (simp add: districtKey_of_string districtName_nonempty)
  have chart:
    "ChartComponent (selectedDistrictData (tws (data (hook st))) (Some (normalize_key ?name)))
       (Some ?name) = Message (''No TWS data is available for '' @ ?name @ ''.'')"
    using ChartComponent_no_series [OF selectedDistrictData_miss [OF miss], of ?name]
    by (simp add: districtName_nonempty)
  have title: "js_or (Some ?name) ''No District Selected'' = ?name"
    by (simp add: js_or_def districtName_nonempty)
  have "loading (hook ?st) = False" "\<not> truthy (error (hook ?st))"
    using ready by simp_all
  from App_dashboard_view [OF this] show ?thesis
    by (simp add: key chart title)
qed

theorem lookup_miss_shows_placeholder_witness:
  "normalize_key (districtName \<lparr>DISTRICT = Some ''Srinagar''\<rparr>) \<notin> set (map fst ([] :: int TwsDataset)) \<and>
   chart_pane
     (App (handleDistrictClick (districtName \<lparr>DISTRICT = Some ''Srinagar''\<rparr>)
        \<lparr>hook = \<lparr>data = \<lparr>tws = ([] :: int TwsDataset),
                           geojson = Some [\<lparr>properties = Some \<lparr>DISTRICT = Some ''Srinagar''\<rparr>,
                                            geometry = ()\<rparr>]\<rparr>,
                  loading = False, error = None\<rparr>,
         selectedDistrict = None\<rparr>))
   = Message ''No TWS data is available for Srinagar.''"
proof -
  let ?p = "\<lparr>DISTRICT = Some ''Srinagar''\<rparr>"
  let ?st = "\<lparr>hook = \<lparr>data = \<lparr>tws = ([] :: int TwsDataset),
                           geojson = Some [\<lparr>properties = Some ?p, geometry = ()\<rparr>]\<rparr>,
                  loading = False, error = None\<rparr>,
         selectedDistrict = None\<rparr>"
  have d: "districtName ?p = ''Srinagar''"
    by (simp add: districtName_def js_or_def)
  from lookup_miss_shows_placeholder [of ?st ?p] show ?thesis
    by (simp add: d)
qed

text \<open>
  C6. For every non-empty series the chart view is a line chart whose points, read as
  (year, value) pairs, are the entries of the series in their order: nothing is
  filtered out, added or moved, whatever the values. As an object has every key once,
  every key of the series is the year of exactly one point.
\<close>

theorem chart_points_are_the_entries:
  assumes "series \<noteq> []"
  shows "\<exists>pts. ChartComponent (SeriesObject series) name = LineChart pts \<and>
               map (\<lambda>pt. (year pt, TWS_BCM pt)) pts = series \<and>
               (distinct (map fst series) \<longrightarrow>
                  (\<forall>k \<in> set (map fst series). length (filter (\<lambda>pt. year pt = k) pts) = 1))"
proof -
  let ?f = "\<lambda>(year', value). \<lparr>year = year', TWS_BCM = value\<rparr>"
  let ?pts = "map ?f series"
  have c: "ChartComponent (SeriesObject series) name = LineChart ?pts"
    using assms
    by (simp add: ChartComponent_def is_falsy_def Object_keys_def Object_entries_def)
  have e: "map (\<lambda>pt. (year pt, TWS_BCM pt)) ?pts = series"
    by (induction series) (simp_all add: case_prod_beta)
  have y: "map year ?pts = map fst series"
    by (induction series) (simp_all add: case_prod_beta)
  have o: "length (filter (\<lambda>pt. year pt = k) ?pts) = 1"
    if "distinct (map fst series)" "k \<in> set (map fst series)" for k
  proof -
    have "length (filter (\<lambda>pt. year pt = k) ?pts) = length (filter (\<lambda>x. x = k) (map year ?pts))"
      by (simp only: filter_map length_map comp_def)
    then show ?thesis
      unfolding y using length_filter_key [OF that] by simp
  qed
  from c e o show ?thesis by blast
qed

theorem chart_points_are_the_entries_witness:
  "[(''2010'', 12 :: int), (''2011'', 0)] \<noteq> [] \<and>
   ChartComponent (SeriesObject [(''2010'', 12 :: int), (''2011'', 0)]) (Some ''Badgam'')
     = LineChart [\<lparr>year = ''2010'', TWS_BCM = 12\<rparr>, \<lparr>year = ''2011'', TWS_BCM = 0\<rparr>]"
proof -
  obtain pts where
    c: "ChartComponent (SeriesObject [(''2010'', 12 :: int), (''2011'', 0)]) (Some ''Badgam'')
          = LineChart pts"
    and e: "map (\<lambda>pt. (year pt, TWS_BCM pt)) pts = [(''2010'', 12), (''2011'', 0)]"
    using chart_points_are_the_entries
            [of "[(''2010'', 12 :: int), (''2011'', 0)]" "Some ''Badgam''"]
    by auto
  from e have "pts = [\<lparr>year = ''2010'', TWS_BCM = 12\<rparr>, \<lparr>year = ''2011'', TWS_BCM = 0\<rparr>]"
    by (auto simp: map_eq_Cons_conv)
  with c show ?thesis by simp
qed

text \<open>
  C8, as amended. For every feature that has a properties object, and every callback,
  \<^verbatim>\<open>onEachFeature\<close> attaches a click listener that invokes the callback with the
  feature's \<^verbatim>\<open>DISTRICT\<close> when that is a non-empty string, and with the literal
  \<^verbatim>\<open>Unknown\<close> when it is absent or the empty string; the tooltip shows the same name.
\<close>

theorem click_reports_district_name:
  assumes "properties feat = Some p"
  shows "\<exists>l. onEachFeature cb feat = Inr l \<and>
             (\<forall>d. DISTRICT p = Some d \<and> d \<noteq> [] \<longrightarrow> click l = cb d \<and> tooltip l = d) \<and>
             (DISTRICT p = None \<or> DISTRICT p = Some [] \<longrightarrow>
                click l = cb ''Unknown'' \<and> tooltip l = ''Unknown'')"
  using assms by (auto simp: onEachFeature_def districtName_def js_or_def)

theorem click_reports_district_name_witness:
  "properties \<lparr>properties = Some \<lparr>DISTRICT = Some ''Badgam''\<rparr>, geometry = ()\<rparr>
     = Some \<lparr>DISTRICT = Some ''Badgam''\<rparr> \<and>
   selectedDistrict
     (click (projr (onEachFeature handleDistrictClick
                      \<lparr>properties = Some \<lparr>DISTRICT = Some ''Badgam''\<rparr>, geometry = ()\<rparr>))
        (App_initial :: (int, unit) app_state)) = Some ''Badgam'' \<and>
   selectedDistrict
     (click (projr (onEachFeature handleDistrictClick
                      \<lparr>properties = Some \<lparr>DISTRICT = None\<rparr>, geometry = ()\<rparr>))
        (App_initial :: (int, unit) app_state)) = Some ''Unknown''"
proof -
  let ?f = "\<lparr>properties = Some \<lparr>DISTRICT = Some ''Badgam''\<rparr>, geometry = ()\<rparr>"
  let ?u = "\<lparr>properties = Some \<lparr>DISTRICT = None\<rparr>, geometry = ()\<rparr>"
  let ?cb = "handleDistrictClick :: string \<Rightarrow> (int, unit) app_state \<Rightarrow> (int, unit) app_state"
  obtain l where l: "onEachFeature ?cb ?f = Inr l" "click l = ?cb ''Badgam''"
    using click_reports_district_name [of ?f "\<lparr>DISTRICT = Some ''Badgam''\<rparr>" ?cb] by auto
  obtain k where k: "onEachFeature ?cb ?u = Inr k" "click k = ?cb ''Unknown''"
    using click_reports_district_name [of ?u "\<lparr>DISTRICT = None\<rparr>" ?cb] by auto
  show ?thesis
    by (simp add: l k)
qed

text \<open>
  C8 as stated fails for a feature whose \<^verbatim>\<open>DISTRICT\<close> is present and is the empty
  string: line 71 takes the right operand of \<^verbatim>\<open>||\<close> for every falsy left operand, so the
  callback receives \<^verbatim>\<open>Unknown\<close>, not the property.
\<close>

theorem empty_district_counterexample:
  "DISTRICT \<lparr>DISTRICT = Some []\<rparr> = Some [] \<and>
   selectedDistrict
     (click (projr (onEachFeature handleDistrictClick
                      \<lparr>properties = Some \<lparr>DISTRICT = Some []\<rparr>, geometry = ()\<rparr>))
        (App_initial :: (int, unit) app_state)) = Some ''Unknown''"
  by (simp add: onEachFeature_def districtName_def js_or_def)



text \<open>
  C10. When the loader, started from its initial state, ends with an error, the data
  it publishes is still the initial \<^verbatim>\<open>{ tws: {}, geojson: null }\<close>, also when one of
  the two fetches succeeded: no part of a dataset is exposed.
\<close>

theorem load_error_keeps_initial_data:
  assumes "error (fetchData useWaterData_initial ord twsFetch geojsonFetch) \<noteq> None"
  shows "data (fetchData useWaterData_initial ord twsFetch geojsonFetch)
           = \<lparr>tws = [], geojson = None\<rparr>"
  using assms
  by (cases "fetchData_try ord twsFetch geojsonFetch")
     (simp_all add: fetchData_def useWaterData_initial_def)

theorem load_error_keeps_initial_data_witness:
  "error (fetchData (useWaterData_initial :: (int, unit) hook_state) TwsFirst
            (Resolved (Response 200 (Inr [(''badgam'', [(''2010'', 12)])])))
            (Rejected ''Failed to fetch'')) = Some ''Failed to fetch'' \<and>
   data (fetchData (useWaterData_initial :: (int, unit) hook_state) TwsFirst
            (Resolved (Response 200 (Inr [(''badgam'', [(''2010'', 12)])])))
            (Rejected ''Failed to fetch'')) = \<lparr>tws = [], geojson = None\<rparr>"
proof -
  let ?h = "fetchData (useWaterData_initial :: (int, unit) hook_state) TwsFirst
              (Resolved (Response 200 (Inr [(''badgam'', [(''2010'', 12)])])))
              (Rejected ''Failed to fetch'')"
  have e: "error ?h = Some ''Failed to fetch''"
    by (simp add: fetchData_def fetchData_try_def)
  then have "error ?h \<noteq> None" by simp
  from load_error_keeps_initial_data [OF this] e show ?thesis
    by simp
qed

end
